theory Spec2Isabelle
  imports Complex_Main
begin

section \<open>Pair stationarity testing: a model of ml\_algo.py\<close>

text \<open>
  The script fetches two price frames, subtracts their closing prices and runs two unit
  root tests on the difference. Its own code is the enrichment of a fetched frame
  (\<open>fetch_stock_data\<close>), the two reporting wrappers (\<open>adf_test\<close>,
  \<open>phillips_perron_test\<close>) and the main block. Everything numerical is done by
  libraries: yfinance delivers the frame, pandas and ta compute the indicators,
  statsmodels and arch compute the test statistics. Those routines are parameters of the
  model (the record \<open>env\<close>); the index alignment of pandas, which is structural, is
  written out.
\<close>

subsection \<open>Floating point values\<close>

text \<open>
  A Python float is a finite value, an infinity or NaN. Comparisons are those of IEEE 754:
  every comparison with NaN is false. Finite arithmetic is written over the reals, so
  rounding, overflow and the sign of zero are not represented.
\<close>

datatype pyfloat = Fin real | PInf | NInf | NaN

fun flt :: "pyfloat \<Rightarrow> pyfloat \<Rightarrow> bool" where
  "flt NaN _ = False"
| "flt _ NaN = False"
| "flt (Fin a) (Fin b) = (a < b)"
| "flt _ NInf = False"
| "flt NInf _ = True"
| "flt PInf _ = False"
| "flt (Fin a) PInf = True"

fun fneg :: "pyfloat \<Rightarrow> pyfloat" where
  "fneg (Fin a) = Fin (- a)"
| "fneg PInf = NInf"
| "fneg NInf = PInf"
| "fneg NaN = NaN"

fun fadd :: "pyfloat \<Rightarrow> pyfloat \<Rightarrow> pyfloat" where
  "fadd NaN _ = NaN"
| "fadd _ NaN = NaN"
| "fadd (Fin a) (Fin b) = Fin (a + b)"
| "fadd PInf NInf = NaN"
| "fadd NInf PInf = NaN"
| "fadd PInf _ = PInf"
| "fadd _ PInf = PInf"
| "fadd NInf _ = NInf"
| "fadd _ NInf = NInf"

definition fsub :: "pyfloat \<Rightarrow> pyfloat \<Rightarrow> pyfloat" where
  "fsub a b = fadd a (fneg b)"

definition signed_inf :: "real \<Rightarrow> pyfloat" where
  "signed_inf s = (if 0 < s then PInf else if s < 0 then NInf else NaN)"

fun fmul :: "pyfloat \<Rightarrow> pyfloat \<Rightarrow> pyfloat" where
  "fmul NaN _ = NaN"
| "fmul _ NaN = NaN"
| "fmul (Fin a) (Fin b) = Fin (a * b)"
| "fmul (Fin a) PInf = signed_inf a"
| "fmul (Fin a) NInf = signed_inf (- a)"
| "fmul PInf (Fin b) = signed_inf b"
| "fmul NInf (Fin b) = signed_inf (- b)"
| "fmul PInf PInf = PInf"
| "fmul NInf NInf = PInf"
| "fmul PInf NInf = NInf"
| "fmul NInf PInf = NInf"

fun fdiv :: "pyfloat \<Rightarrow> pyfloat \<Rightarrow> pyfloat" where
  "fdiv NaN _ = NaN"
| "fdiv _ NaN = NaN"
| "fdiv (Fin a) (Fin b) = (if b = 0 then signed_inf a else Fin (a / b))"
| "fdiv (Fin a) _ = Fin 0"
| "fdiv PInf (Fin b) = (if b < 0 then NInf else PInf)"
| "fdiv NInf (Fin b) = (if b < 0 then PInf else NInf)"
| "fdiv _ _ = NaN"

subsection \<open>Series and frames\<close>

text \<open>
  A pandas Series is a list of (date, value) pairs in index order; a date is a day number.
  A DataFrame is its index and its columns by name. The price series of the data model
  have strictly ascending dates, and the alignment below is that of pandas for such
  indexes (and for two equal indexes of any shape).
\<close>

type_synonym date = nat
type_synonym series = "(date \<times> pyfloat) list"

record frame =
  index :: "date list"
  columns :: "string \<rightharpoonup> pyfloat list"

datatype pyerror = KeyError string | Raised string

definition and_then :: "'e + 'a \<Rightarrow> ('a \<Rightarrow> 'e + 'b) \<Rightarrow> 'e + 'b" where
  "and_then m f = (case m of Inl e \<Rightarrow> Inl e | Inr x \<Rightarrow> f x)"

text \<open>
  A binary operator between two Series aligns them first: the result is indexed by the
  union of the two indexes in ascending order, each operand is NaN at a date it lacks,
  and the operation is applied date by date.
\<close>

fun align_op :: "(pyfloat \<Rightarrow> pyfloat \<Rightarrow> pyfloat) \<Rightarrow> series \<Rightarrow> series \<Rightarrow> series" where
  "align_op f [] ys = map (\<lambda>(d, y). (d, f NaN y)) ys"
| "align_op f xs [] = map (\<lambda>(d, x). (d, f x NaN)) xs"
| "align_op f ((d1, x) # xs) ((d2, y) # ys) =
     (if d1 = d2 then (d1, f x y) # align_op f xs ys
      else if d1 < d2 then (d1, f x NaN) # align_op f xs ((d2, y) # ys)
      else (d2, f NaN y) # align_op f ((d1, x) # xs) ys)"

definition series_sub :: "series \<Rightarrow> series \<Rightarrow> series" where
  "series_sub a b = align_op fsub a b"

definition series_add :: "series \<Rightarrow> series \<Rightarrow> series" where
  "series_add a b = align_op fadd a b"

definition series_div :: "series \<Rightarrow> series \<Rightarrow> series" where
  "series_div a b = align_op fdiv a b"

definition series_mul_scalar :: "series \<Rightarrow> pyfloat \<Rightarrow> series" where
  "series_mul_scalar a k = map (\<lambda>(d, x). (d, fmul x k)) a"

text \<open>\<open>data[c]\<close> raises KeyError for a column the frame lacks.\<close>

definition getitem :: "frame \<Rightarrow> string \<Rightarrow> pyerror + series" where
  "getitem data c =
     (case columns data c of
        None \<Rightarrow> Inl (KeyError c)
      | Some vs \<Rightarrow> Inr (zip (index data) vs))"

text \<open>
  \<open>data[c] = s\<close> stores the Series under the name \<open>c\<close>, conformed to the index of the
  frame: a date of the frame that the Series lacks gets NaN.
\<close>

definition reindex :: "series \<Rightarrow> date list \<Rightarrow> pyfloat list" where
  "reindex s idx = map (\<lambda>d. case map_of s d of None \<Rightarrow> NaN | Some v \<Rightarrow> v) idx"

definition setitem :: "frame \<Rightarrow> string \<Rightarrow> series \<Rightarrow> frame" where
  "setitem data c s = data\<lparr>columns := (columns data)(c \<mapsto> reindex s (index data))\<rparr>"

subsection \<open>The library routines\<close>

text \<open>
  \<open>adfuller\<close> returns the tuple (statistic, p-value, used lag, observations, critical
  values, best information criterion); the script reads its components 0, 1 and 4.
  \<open>PhillipsPerron\<close> returns an object whose \<open>stat\<close> and \<open>pvalue\<close> are computed
  on first access, which is before anything of that test is printed. The routines of
  yfinance, ta, statsmodels and arch may raise; the pandas ones return a value.
\<close>

type_synonym adf_result =
  "pyfloat \<times> pyfloat \<times> nat \<times> nat \<times> (string \<times> pyfloat) list \<times> pyfloat"

record pp_result =
  stat :: pyfloat
  pvalue :: pyfloat

record env =
  history :: "string \<Rightarrow> string \<Rightarrow> string \<Rightarrow> pyerror + frame"
  rolling_mean :: "nat \<Rightarrow> series \<Rightarrow> series"
  rolling_std :: "nat \<Rightarrow> series \<Rightarrow> series"
  ewm_mean :: "nat \<Rightarrow> series \<Rightarrow> series"
  rsi :: "series \<Rightarrow> nat \<Rightarrow> pyerror + series"
  macd :: "series \<Rightarrow> pyerror + series"
  average_true_range :: "series \<Rightarrow> series \<Rightarrow> series \<Rightarrow> pyerror + series"
  describe :: "series \<Rightarrow> (string \<times> pyfloat) list"
  adfuller :: "series \<Rightarrow> pyerror + adf_result"
  PhillipsPerron :: "series \<Rightarrow> pyerror + pp_result"

subsection \<open>fetch\_stock\_data\<close>

definition assign :: "string \<Rightarrow> (frame \<Rightarrow> pyerror + series) \<Rightarrow> frame \<Rightarrow> pyerror + frame" where
  "assign c rhs data = and_then (rhs data) (\<lambda>s. Inr (setitem data c s))"

definition fetch_stock_data :: "env \<Rightarrow> string \<Rightarrow> string \<Rightarrow> string \<Rightarrow> pyerror + frame" where
  "fetch_stock_data E ticker start_date end_date =
     and_then (history E ticker start_date end_date) (\<lambda>data.
     and_then (assign ''Rolling_Mean'' (\<lambda>data.
         and_then (getitem data ''Close'') (\<lambda>close. Inr (rolling_mean E 20 close))) data) (\<lambda>data.
     and_then (assign ''Rolling_Std'' (\<lambda>data.
         and_then (getitem data ''Close'') (\<lambda>close. Inr (rolling_std E 20 close))) data) (\<lambda>data.
     and_then (assign ''Z_Score'' (\<lambda>data.
         and_then (getitem data ''Close'') (\<lambda>close.
         and_then (getitem data ''Rolling_Mean'') (\<lambda>mean.
         and_then (getitem data ''Rolling_Std'') (\<lambda>std.
         Inr (series_div (series_sub close mean) std))))) data) (\<lambda>data.
     and_then (assign ''Bollinger_High'' (\<lambda>data.
         and_then (getitem data ''Rolling_Mean'') (\<lambda>mean.
         and_then (getitem data ''Rolling_Std'') (\<lambda>std.
         Inr (series_add mean (series_mul_scalar std (Fin 2)))))) data) (\<lambda>data.
     and_then (assign ''Bollinger_Low'' (\<lambda>data.
         and_then (getitem data ''Rolling_Mean'') (\<lambda>mean.
         and_then (getitem data ''Rolling_Std'') (\<lambda>std.
         Inr (series_sub mean (series_mul_scalar std (Fin 2)))))) data) (\<lambda>data.
     and_then (assign ''RSI'' (\<lambda>data.
         and_then (getitem data ''Close'') (\<lambda>close. rsi E close 14)) data) (\<lambda>data.
     and_then (assign ''SMA_50'' (\<lambda>data.
         and_then (getitem data ''Close'') (\<lambda>close. Inr (rolling_mean E 50 close))) data) (\<lambda>data.
     and_then (assign ''EMA_50'' (\<lambda>data.
         and_then (getitem data ''Close'') (\<lambda>close. Inr (ewm_mean E 50 close))) data) (\<lambda>data.
     and_then (assign ''MACD'' (\<lambda>data.
         and_then (getitem data ''Close'') (\<lambda>close. macd E close)) data) (\<lambda>data.
     and_then (assign ''ATR'' (\<lambda>data.
         and_then (getitem data ''High'') (\<lambda>high.
         and_then (getitem data ''Low'') (\<lambda>low.
         and_then (getitem data ''Close'') (\<lambda>close.
         average_true_range E high low close)))) data) (\<lambda>data.
     Inr data)))))))))))"

definition indicator_columns :: "string list" where
  "indicator_columns =
     [''Rolling_Mean'', ''Rolling_Std'', ''Z_Score'', ''Bollinger_High'', ''Bollinger_Low'',
      ''RSI'', ''SMA_50'', ''EMA_50'', ''MACD'', ''ATR'']"

subsection \<open>The two tests and the main block\<close>

text \<open>
  What the script writes to standard output, in order: the prompt of an \<open>input\<close>, a
  line of text, a label followed by a formatted float or by the table of critical values,
  and the table that \<open>describe\<close> returns.
\<close>

datatype printed =
    Prompt string
  | Line string
  | Labelled string pyfloat
  | LabelledTable string "(string \<times> pyfloat) list"
  | Summary "(string \<times> pyfloat) list"

definition adf_test :: "env \<Rightarrow> series \<Rightarrow> printed list \<times> (pyerror + pyfloat)" where
  "adf_test E series =
     (case adfuller E series of
        Inl e \<Rightarrow> ([], Inl e)
      | Inr (r0, r1, r2, r3, r4, r5) \<Rightarrow>
          ([Labelled ''\<newline>ADF Test Statistic: '' r0,
            Labelled ''ADF Test p-value: '' r1,
            LabelledTable ''ADF Critical Values: '' r4],
           Inr r1))"

definition phillips_perron_test :: "env \<Rightarrow> series \<Rightarrow> printed list \<times> (pyerror + pyfloat)" where
  "phillips_perron_test E series =
     (case PhillipsPerron E series of
        Inl e \<Rightarrow> ([], Inl e)
      | Inr result \<Rightarrow>
          ([Labelled ''\<newline>Phillips-Perron Test Statistic: '' (stat result),
            Labelled ''Phillips-Perron Test p-value: '' (pvalue result)],
           Inr (pvalue result)))"

text \<open>\<open>str.upper\<close> on the ASCII letters.\<close>

definition upper_char :: "char \<Rightarrow> char" where
  "upper_char c =
     (case map_of (zip ''abcdefghijklmnopqrstuvwxyz'' ''ABCDEFGHIJKLMNOPQRSTUVWXYZ'') c of
        None \<Rightarrow> c
      | Some u \<Rightarrow> u)"

definition upper :: "string \<Rightarrow> string" where
  "upper s = map upper_char s"

definition prompts :: "printed list" where
  "prompts =
     [Prompt ''Enter first stock ticker for pair testing: '',
      Prompt ''Enter second stock ticker for pair testing: '',
      Prompt ''Enter start date (YYYY-MM-DD): '',
      Prompt ''Enter end date (YYYY-MM-DD): '']"

text \<open>Lines 90 to 93 and lines 97 to 100: the two verdicts.\<close>

definition adf_verdict :: "string \<Rightarrow> string \<Rightarrow> pyfloat \<Rightarrow> printed" where
  "adf_verdict ticker1 ticker2 adf_pvalue =
     (if flt adf_pvalue (Fin (3 / 10))
      then Line (''\<newline>'' @ ticker1 @ '' and '' @ ticker2 @
                 '' may be cointegrated (ADF Test).'')
      else Line (''\<newline>'' @ ticker1 @ '' and '' @ ticker2 @
                 '' do not show strong cointegration (ADF Test).''))"

definition pp_verdict :: "string \<Rightarrow> string \<Rightarrow> pyfloat \<Rightarrow> printed" where
  "pp_verdict ticker1 ticker2 pp_pvalue =
     (if flt pp_pvalue (Fin (3 / 10))
      then Line (''\<newline>'' @ ticker1 @ '' and '' @ ticker2 @
                 '' may be cointegrated (Phillips-Perron Test).'')
      else Line (''\<newline>'' @ ticker1 @ '' and '' @ ticker2 @
                 '' do not show strong cointegration (Phillips-Perron Test).''))"

text \<open>Lines 79 to 84: the two closing price columns and their difference.\<close>

definition pair_spread :: "env \<Rightarrow> string \<Rightarrow> string \<Rightarrow> string \<Rightarrow> string \<Rightarrow> pyerror + series" where
  "pair_spread E ticker1 ticker2 start_date end_date =
     and_then (and_then (fetch_stock_data E ticker1 start_date end_date)
                 (\<lambda>data. getitem data ''Close'')) (\<lambda>stock1.
     and_then (and_then (fetch_stock_data E ticker2 start_date end_date)
                 (\<lambda>data. getitem data ''Close'')) (\<lambda>stock2.
     Inr (series_sub stock1 stock2)))"

text \<open>
  The main block, from the four lines read from standard input to the output written and
  the way the run ends: \<open>Inr ()\<close> at the end of the script, \<open>Inl e\<close> for the
  exception that stopped it. No statement of the script catches an exception.
\<close>

definition main_prog ::
  "env \<Rightarrow> string \<Rightarrow> string \<Rightarrow> string \<Rightarrow> string \<Rightarrow> printed list \<times> (pyerror + unit)" where
  "main_prog E in1 in2 in3 in4 =
     (let ticker1 = upper in1; ticker2 = upper in2; start_date = in3; end_date = in4 in
      case pair_spread E ticker1 ticker2 start_date end_date of
        Inl e \<Rightarrow> (prompts, Inl e)
      | Inr spread \<Rightarrow>
          (let out0 = prompts @
                 [Line ''\<newline>Spread Summary:'', Summary (describe E spread)] in
           case adf_test E spread of
             (out1, Inl e) \<Rightarrow> (out0 @ out1, Inl e)
           | (out1, Inr adf_pvalue) \<Rightarrow>
               (let out2 = out0 @ out1 @ [adf_verdict ticker1 ticker2 adf_pvalue] in
                case phillips_perron_test E spread of
                  (out3, Inl e) \<Rightarrow> (out2 @ out3, Inl e)
                | (out3, Inr pp_pvalue) \<Rightarrow>
                    (out2 @ out3 @ [pp_verdict ticker1 ticker2 pp_pvalue], Inr ()))))"

subsection \<open>The rules of the specification\<close>

text \<open>
  The verdict rule of the data model, \<open>is_stationary = (p_value < threshold)\<close>, with
  the threshold as an argument. The script writes the comparison twice, each time with
  the literal 0.3.
\<close>

definition is_stationary :: "pyfloat \<Rightarrow> pyfloat \<Rightarrow> bool" where
  "is_stationary p_value threshold = flt p_value threshold"

text \<open>
  The spread of the closing prices as the provider delivers them, with no indicator
  computed: what the spread of the enriched frames is compared with.
\<close>

definition close_only_spread :: "env \<Rightarrow> string \<Rightarrow> string \<Rightarrow> string \<Rightarrow> string \<Rightarrow> pyerror + series" where
  "close_only_spread E ticker1 ticker2 start_date end_date =
     and_then (and_then (history E ticker1 start_date end_date)
                 (\<lambda>data. getitem data ''Close'')) (\<lambda>stock1.
     and_then (and_then (history E ticker2 start_date end_date)
                 (\<lambda>data. getitem data ''Close'')) (\<lambda>stock2.
     Inr (series_sub stock1 stock2)))"

text \<open>
  \<open>frame_extends cs data data'\<close>: the frame \<open>data'\<close> is \<open>data\<close> with the columns
  named in \<open>cs\<close> set and everything else, the index included, as it was.
\<close>

definition frame_extends :: "string set \<Rightarrow> frame \<Rightarrow> frame \<Rightarrow> bool" where
  "frame_extends cs data data' \<longleftrightarrow>
     index data' = index data \<and>
     (\<forall>k. k \<notin> cs \<longrightarrow> columns data' k = columns data k) \<and>
     dom (columns data') = dom (columns data) \<union> cs"

subsection \<open>Example inputs\<close>

text \<open>
  A provider that answers every request with a small frame chosen by the ticker, and library
  routines simple enough to evaluate: every indicator returns its (last) argument.
\<close>

definition example_frame :: "date list \<Rightarrow> pyfloat list \<Rightarrow> frame" where
  "example_frame idx close =
     \<lparr>index = idx, columns = [''Close'' \<mapsto> close, ''High'' \<mapsto> close, ''Low'' \<mapsto> close]\<rparr>"

definition example_env ::
  "(string \<Rightarrow> frame) \<Rightarrow> (series \<Rightarrow> pyerror + adf_result) \<Rightarrow>
   (series \<Rightarrow> pyerror + pp_result) \<Rightarrow> env" where
  "example_env frames adf pp =
     \<lparr>history = (\<lambda>ticker start_date end_date. Inr (frames ticker)),
      rolling_mean = (\<lambda>window s. s),
      rolling_std = (\<lambda>window s. s),
      ewm_mean = (\<lambda>span s. s),
      rsi = (\<lambda>s window. Inr s),
      macd = (\<lambda>s. Inr s),
      average_true_range = (\<lambda>high low close. Inr close),
      describe = (\<lambda>s. [(''count'', Fin (real (length s)))]),
      adfuller = adf,
      PhillipsPerron = pp\<rparr>"


definition same_calendar :: "string \<Rightarrow> frame" where
  "same_calendar ticker =
     (if ticker = ''A'' then example_frame [1, 2] [Fin 10, Fin 20]
      else example_frame [1, 2] [Fin 4, Fin 5])"


definition adf_raises :: "series \<Rightarrow> pyerror + adf_result" where
  "adf_raises s = Inl (Raised ''ValueError'')"

definition adf_returns :: "pyfloat \<Rightarrow> series \<Rightarrow> pyerror + adf_result" where
  "adf_returns p s =
     Inr (Fin (- 3), p, 1, length s,
          [(''1%'', Fin (- 7 / 2)), (''5%'', Fin (- 29 / 10)), (''10%'', Fin (- 13 / 5))],
          Fin 7)"

definition pp_raises :: "series \<Rightarrow> pyerror + pp_result" where
  "pp_raises s = Inl (Raised ''InfeasibleTestException'')"

definition pp_returns :: "pyfloat \<Rightarrow> series \<Rightarrow> pyerror + pp_result" where
  "pp_returns p s = Inr \<lparr>stat = Fin (- 4), pvalue = p\<rparr>"

section \<open>Properties\<close>

subsection \<open>Alignment of two series\<close>













subsection \<open>The spread\<close>









subsection \<open>The run of the main block\<close>


lemma adf_test_returns:
  "adfuller E spread = Inr (r0, r1, r2, r3, r4, r5) \<Longrightarrow>
   adf_test E spread =
     ([Labelled ''\<newline>ADF Test Statistic: '' r0,
       Labelled ''ADF Test p-value: '' r1,
       LabelledTable ''ADF Critical Values: '' r4], Inr r1)"
  by (simp add: adf_test_def)


lemma phillips_perron_test_returns:
  "PhillipsPerron E spread = Inr result \<Longrightarrow>
   phillips_perron_test E spread =
     ([Labelled ''\<newline>Phillips-Perron Test Statistic: '' (stat result),
       Labelled ''Phillips-Perron Test p-value: '' (pvalue result)], Inr (pvalue result))"
  by (simp add: phillips_perron_test_def)



lemma main_prog_both_return:
  assumes "pair_spread E (upper in1) (upper in2) in3 in4 = Inr spread"
    and "adfuller E spread = Inr (r0, r1, r2, r3, r4, r5)"
    and "PhillipsPerron E spread = Inr result"
  shows "main_prog E in1 in2 in3 in4 =
     (prompts @
      [Line ''\<newline>Spread Summary:'', Summary (describe E spread),
       Labelled ''\<newline>ADF Test Statistic: '' r0,
       Labelled ''ADF Test p-value: '' r1,
       LabelledTable ''ADF Critical Values: '' r4,
       adf_verdict (upper in1) (upper in2) r1,
       Labelled ''\<newline>Phillips-Perron Test Statistic: '' (stat result),
       Labelled ''Phillips-Perron Test p-value: '' (pvalue result),
       pp_verdict (upper in1) (upper in2) (pvalue result)], Inr ())"
  using assms
  by (simp add: main_prog_def Let_def adf_test_returns phillips_perron_test_returns)


text \<open>The example provider at work: the spread of two frames on the same two days.\<close>

lemma example_spread:
  "pair_spread (example_env same_calendar adf pp) ''A'' ''B'' s e = Inr [(1, Fin 6), (2, Fin 15)]"
  by (simp add: pair_spread_def fetch_stock_data_def example_env_def same_calendar_def
      example_frame_def assign_def and_then_def getitem_def setitem_def reindex_def
      series_sub_def fsub_def)

lemma example_upper: "upper ''a'' = ''A'' \<and> upper ''b'' = ''B''"
  by (simp add: upper_def upper_char_def)

text \<open>
  C1: in a run where both tests return, the verdict printed for the ADF test is the
  one of \<open>is_stationary\<close> at the p-value of that test and the threshold 0.3, the
  verdict printed for the Phillips-Perron test is the one of the same rule at its own
  p-value, and each of the two is the line "may be cointegrated" exactly when the rule
  holds. The threshold is the literal 0.3 at both comparisons; the script has no other.
\<close>

theorem verdict_rule_both_tests:
  assumes "pair_spread E (upper in1) (upper in2) in3 in4 = Inr spread"
    and "adfuller E spread = Inr (r0, r1, r2, r3, r4, r5)"
    and "PhillipsPerron E spread = Inr result"
  shows "main_prog E in1 in2 in3 in4 =
     (prompts @
      [Line ''\<newline>Spread Summary:'', Summary (describe E spread),
       Labelled ''\<newline>ADF Test Statistic: '' r0,
       Labelled ''ADF Test p-value: '' r1,
       LabelledTable ''ADF Critical Values: '' r4,
       adf_verdict (upper in1) (upper in2) r1,
       Labelled ''\<newline>Phillips-Perron Test Statistic: '' (stat result),
       Labelled ''Phillips-Perron Test p-value: '' (pvalue result),
       pp_verdict (upper in1) (upper in2) (pvalue result)], Inr ()) \<and>
     (adf_verdict (upper in1) (upper in2) r1 =
        Line (''\<newline>'' @ upper in1 @ '' and '' @ upper in2 @
              '' may be cointegrated (ADF Test).'')) = is_stationary r1 (Fin (3 / 10)) \<and>
     (adf_verdict (upper in1) (upper in2) r1 =
        Line (''\<newline>'' @ upper in1 @ '' and '' @ upper in2 @
              '' do not show strong cointegration (ADF Test).'')) =
        (\<not> is_stationary r1 (Fin (3 / 10))) \<and>
     (pp_verdict (upper in1) (upper in2) (pvalue result) =
        Line (''\<newline>'' @ upper in1 @ '' and '' @ upper in2 @
              '' may be cointegrated (Phillips-Perron Test).'')) =
        is_stationary (pvalue result) (Fin (3 / 10)) \<and>
     (pp_verdict (upper in1) (upper in2) (pvalue result) =
        Line (''\<newline>'' @ upper in1 @ '' and '' @ upper in2 @
              '' do not show strong cointegration (Phillips-Perron Test).'')) =
        (\<not> is_stationary (pvalue result) (Fin (3 / 10)))"
  using main_prog_both_return [OF assms]
  by (simp add: adf_verdict_def pp_verdict_def is_stationary_def)

theorem verdict_rule_both_tests_witness:
  "pair_spread (example_env same_calendar (adf_returns (Fin (1 / 20))) (pp_returns (Fin (2 / 5))))
     (upper ''a'') (upper ''b'') ''2024-01-01'' ''2024-01-03'' = Inr [(1, Fin 6), (2, Fin 15)] \<and>
   adfuller (example_env same_calendar (adf_returns (Fin (1 / 20))) (pp_returns (Fin (2 / 5))))
     [(1, Fin 6), (2, Fin 15)] =
     Inr (Fin (- 3), Fin (1 / 20), 1, 2,
          [(''1%'', Fin (- 7 / 2)), (''5%'', Fin (- 29 / 10)), (''10%'', Fin (- 13 / 5))],
          Fin 7) \<and>
   PhillipsPerron (example_env same_calendar (adf_returns (Fin (1 / 20))) (pp_returns (Fin (2 / 5))))
     [(1, Fin 6), (2, Fin 15)] = Inr \<lparr>stat = Fin (- 4), pvalue = Fin (2 / 5)\<rparr> \<and>
   main_prog (example_env same_calendar (adf_returns (Fin (1 / 20))) (pp_returns (Fin (2 / 5))))
     ''a'' ''b'' ''2024-01-01'' ''2024-01-03'' =
     (prompts @
      [Line ''\<newline>Spread Summary:'', Summary [(''count'', Fin 2)],
       Labelled ''\<newline>ADF Test Statistic: '' (Fin (- 3)),
       Labelled ''ADF Test p-value: '' (Fin (1 / 20)),
       LabelledTable ''ADF Critical Values: ''
         [(''1%'', Fin (- 7 / 2)), (''5%'', Fin (- 29 / 10)), (''10%'', Fin (- 13 / 5))],
       Line ''\<newline>A and B may be cointegrated (ADF Test).'',
       Labelled ''\<newline>Phillips-Perron Test Statistic: '' (Fin (- 4)),
       Labelled ''Phillips-Perron Test p-value: '' (Fin (2 / 5)),
       Line ''\<newline>A and B do not show strong cointegration (Phillips-Perron Test).''],
      Inr ()) \<and>
   is_stationary (Fin (1 / 20)) (Fin (3 / 10)) \<and>
   \<not> is_stationary (Fin (2 / 5)) (Fin (3 / 10))"
proof -
  let ?E = "example_env same_calendar (adf_returns (Fin (1 / 20))) (pp_returns (Fin (2 / 5)))"
  have h1: "pair_spread ?E (upper ''a'') (upper ''b'') ''2024-01-01'' ''2024-01-03'' =
      Inr [(1, Fin 6), (2, Fin 15)]"
    by (simp add: example_upper example_spread)
  have h2: "adfuller ?E [(1, Fin 6), (2, Fin 15)] =
      Inr (Fin (- 3), Fin (1 / 20), 1, 2,
           [(''1%'', Fin (- 7 / 2)), (''5%'', Fin (- 29 / 10)), (''10%'', Fin (- 13 / 5))],
           Fin 7)"
    by (simp add: example_env_def adf_returns_def)
  have h3: "PhillipsPerron ?E [(1, Fin 6), (2, Fin 15)] =
      Inr \<lparr>stat = Fin (- 4), pvalue = Fin (2 / 5)\<rparr>"
    by (simp add: example_env_def pp_returns_def)
  have r: "is_stationary (Fin (1 / 20)) (Fin (3 / 10)) \<and>
      \<not> is_stationary (Fin (2 / 5)) (Fin (3 / 10))"
    by (simp add: is_stationary_def)
  from verdict_rule_both_tests [OF h1 h2 h3]
  have "main_prog ?E ''a'' ''b'' ''2024-01-01'' ''2024-01-03'' =
     (prompts @
      [Line ''\<newline>Spread Summary:'', Summary [(''count'', Fin 2)],
       Labelled ''\<newline>ADF Test Statistic: '' (Fin (- 3)),
       Labelled ''ADF Test p-value: '' (Fin (1 / 20)),
       LabelledTable ''ADF Critical Values: ''
         [(''1%'', Fin (- 7 / 2)), (''5%'', Fin (- 29 / 10)), (''10%'', Fin (- 13 / 5))],
       Line ''\<newline>A and B may be cointegrated (ADF Test).'',
       Labelled ''\<newline>Phillips-Perron Test Statistic: '' (Fin (- 4)),
       Labelled ''Phillips-Perron Test p-value: '' (Fin (2 / 5)),
       Line ''\<newline>A and B do not show strong cointegration (Phillips-Perron Test).''],
      Inr ())"
    by (simp add: example_env_def example_upper adf_verdict_def pp_verdict_def)
  with h1 h2 h3 r show ?thesis by blast
qed




text \<open>
  C7: the verdict rule is monotone in the threshold. For thresholds \<open>t1 < t2\<close>, a
  p-value that is stationary at \<open>t1\<close> is stationary at \<open>t2\<close>; read the other way,
  lowering the threshold from \<open>t2\<close> to \<open>t1\<close> never turns a non-stationary verdict
  into a stationary one. At \<open>t2 = 0.3\<close>, the threshold of the script, the ADF verdict
  printed is then "may be cointegrated".
\<close>

theorem verdict_monotone_in_threshold:
  assumes "flt t1 t2" and "is_stationary p t1"
  shows "is_stationary p t2 \<and>
         (t2 = Fin (3 / 10) \<longrightarrow>
            adf_verdict ticker1 ticker2 p =
              Line (''\<newline>'' @ ticker1 @ '' and '' @ ticker2 @
                    '' may be cointegrated (ADF Test).''))"
proof -
  have "flt p t2"
    using assms unfolding is_stationary_def
    by (cases p; cases t1; cases t2) simp_all
  then show ?thesis
    by (auto simp: is_stationary_def adf_verdict_def)
qed

theorem verdict_monotone_in_threshold_witness:
  "flt (Fin (1 / 20)) (Fin (3 / 10)) \<and>
   is_stationary (Fin (1 / 100)) (Fin (1 / 20)) \<and>
   is_stationary (Fin (1 / 100)) (Fin (3 / 10)) \<and>
   adf_verdict ''A'' ''B'' (Fin (1 / 100)) = Line ''\<newline>A and B may be cointegrated (ADF Test).''"
proof -
  have h1: "flt (Fin (1 / 20)) (Fin (3 / 10))" by simp
  have h2: "is_stationary (Fin (1 / 100)) (Fin (1 / 20))" by (simp add: is_stationary_def)
  from verdict_monotone_in_threshold [OF h1 h2, of "''A''" "''B''"] h1 h2
  show ?thesis by simp
qed



subsection \<open>The enrichment of a fetched frame\<close>

lemma and_then_returns:
  "and_then m f = Inr y \<Longrightarrow> (\<And>x. m = Inr x \<Longrightarrow> f x = Inr y \<Longrightarrow> P) \<Longrightarrow> P"
  by (cases m) (simp_all add: and_then_def)

lemma history_step:
  assumes "and_then m f = Inr data'"
    and "\<And>data. m = Inr data \<Longrightarrow> frame_extends {} data data \<Longrightarrow> f data = Inr data' \<Longrightarrow> P"
  shows P
  using assms by (cases m) (simp_all add: and_then_def frame_extends_def)

lemma assign_step:
  assumes "and_then (assign c rhs data) f = Inr data'"
    and "frame_extends cs data0 data"
    and "\<And>data1. frame_extends (insert c cs) data0 data1 \<Longrightarrow> f data1 = Inr data' \<Longrightarrow> P"
  shows P
proof -
  from assms(1) obtain data1 where a: "assign c rhs data = Inr data1" and f: "f data1 = Inr data'"
    by (rule and_then_returns)
  from a obtain s where d1: "data1 = setitem data c s"
    unfolding assign_def by (elim and_then_returns) auto
  from assms(2) have "frame_extends (insert c cs) data0 data1"
    unfolding d1 frame_extends_def setitem_def by auto
  then show P using f by (rule assms(3))
qed

lemma fetch_stock_data_extends:
  assumes "fetch_stock_data E ticker start_date end_date = Inr data'"
  shows "\<exists>data. history E ticker start_date end_date = Inr data \<and>
           frame_extends (set indicator_columns) data data'"
  using assms unfolding fetch_stock_data_def
  apply -
  apply (erule history_step)
  apply (erule assign_step, assumption)+
  apply (simp add: indicator_columns_def insert_commute)
  done

lemma fetch_stock_data_close:
  assumes "fetch_stock_data E ticker start_date end_date = Inr data'"
    and "getitem data' ''Close'' = Inr close"
  shows "and_then (history E ticker start_date end_date) (\<lambda>data. getitem data ''Close'') =
         Inr close"
proof -
  from fetch_stock_data_extends [OF assms(1)] obtain data where
    h: "history E ticker start_date end_date = Inr data"
    and idx: "index data' = index data"
    and keep: "\<forall>k. k \<notin> set indicator_columns \<longrightarrow> columns data' k = columns data k"
    unfolding frame_extends_def by blast
  have "''Close'' \<notin> set indicator_columns"
    by (simp add: indicator_columns_def)
  with keep have "columns data' ''Close'' = columns data ''Close''" by blast
  with idx have "getitem data' ''Close'' = getitem data ''Close''"
    by (simp add: getitem_def split: option.splits)
  with h assms(2) show ?thesis by (simp add: and_then_def)
qed

text \<open>
  C9: a frame that \<open>fetch_stock_data\<close> returns is the frame of the provider with the
  ten indicator columns set: the index, the column Close and every other column that is
  not one of the ten are as the provider delivered them. So the spread that the main
  block computes from the two enriched frames is the spread of the closing prices of the
  provider.
\<close>

theorem enrichment_keeps_close:
  "(fetch_stock_data E ticker start_date end_date = Inr data' \<longrightarrow>
      (\<exists>data. history E ticker start_date end_date = Inr data \<and>
         index data' = index data \<and>
         getitem data' ''Close'' = getitem data ''Close'' \<and>
         (\<forall>k. k \<notin> set indicator_columns \<longrightarrow> columns data' k = columns data k) \<and>
         dom (columns data') = dom (columns data) \<union> set indicator_columns)) \<and>
   (pair_spread E ticker1 ticker2 start_date end_date = Inr spread \<longrightarrow>
      close_only_spread E ticker1 ticker2 start_date end_date = Inr spread)"
proof (intro conjI impI)
  assume a: "fetch_stock_data E ticker start_date end_date = Inr data'"
  from fetch_stock_data_extends [OF a] obtain data where
    h: "history E ticker start_date end_date = Inr data"
    and idx: "index data' = index data"
    and keep: "\<forall>k. k \<notin> set indicator_columns \<longrightarrow> columns data' k = columns data k"
    and names: "dom (columns data') = dom (columns data) \<union> set indicator_columns"
    unfolding frame_extends_def by blast
  have "''Close'' \<notin> set indicator_columns"
    by (simp add: indicator_columns_def)
  with keep have "columns data' ''Close'' = columns data ''Close''" by blast
  with idx have "getitem data' ''Close'' = getitem data ''Close''"
    by (simp add: getitem_def split: option.splits)
  with h idx keep names
  show "\<exists>data. history E ticker start_date end_date = Inr data \<and>
         index data' = index data \<and>
         getitem data' ''Close'' = getitem data ''Close'' \<and>
         (\<forall>k. k \<notin> set indicator_columns \<longrightarrow> columns data' k = columns data k) \<and>
         dom (columns data') = dom (columns data) \<union> set indicator_columns"
    by blast
next
  assume b: "pair_spread E ticker1 ticker2 start_date end_date = Inr spread"
  then obtain stock1 stock2 d1 d2 where
    f1: "fetch_stock_data E ticker1 start_date end_date = Inr d1"
    and c1: "getitem d1 ''Close'' = Inr stock1"
    and f2: "fetch_stock_data E ticker2 start_date end_date = Inr d2"
    and c2: "getitem d2 ''Close'' = Inr stock2"
    and sp: "spread = series_sub stock1 stock2"
    unfolding pair_spread_def
    by (elim and_then_returns) auto
  from fetch_stock_data_close [OF f1 c1] fetch_stock_data_close [OF f2 c2] sp
  show "close_only_spread E ticker1 ticker2 start_date end_date = Inr spread"
    by (simp add: close_only_spread_def and_then_def)
qed

theorem enrichment_keeps_close_witness:
  "fetch_stock_data (example_env same_calendar adf_raises pp_raises)
     ''A'' ''2024-01-01'' ''2024-01-03'' =
     Inr \<lparr>index = [1, 2],
          columns = [''Close'' \<mapsto> [Fin 10, Fin 20], ''High'' \<mapsto> [Fin 10, Fin 20],
            ''Low'' \<mapsto> [Fin 10, Fin 20], ''Rolling_Mean'' \<mapsto> [Fin 10, Fin 20],
            ''Rolling_Std'' \<mapsto> [Fin 10, Fin 20], ''Z_Score'' \<mapsto> [Fin 0, Fin 0],
            ''Bollinger_High'' \<mapsto> [Fin 30, Fin 60],
            ''Bollinger_Low'' \<mapsto> [Fin (- 10), Fin (- 20)],
            ''RSI'' \<mapsto> [Fin 10, Fin 20], ''SMA_50'' \<mapsto> [Fin 10, Fin 20],
            ''EMA_50'' \<mapsto> [Fin 10, Fin 20], ''MACD'' \<mapsto> [Fin 10, Fin 20],
            ''ATR'' \<mapsto> [Fin 10, Fin 20]]\<rparr> \<and>
   pair_spread (example_env same_calendar adf_raises pp_raises)
     ''A'' ''B'' ''2024-01-01'' ''2024-01-03'' = Inr [(1, Fin 6), (2, Fin 15)] \<and>
   history (example_env same_calendar adf_raises pp_raises)
     ''A'' ''2024-01-01'' ''2024-01-03'' = Inr (example_frame [1, 2] [Fin 10, Fin 20]) \<and>
   getitem \<lparr>index = [1, 2],
          columns = [''Close'' \<mapsto> [Fin 10, Fin 20], ''High'' \<mapsto> [Fin 10, Fin 20],
            ''Low'' \<mapsto> [Fin 10, Fin 20], ''Rolling_Mean'' \<mapsto> [Fin 10, Fin 20],
            ''Rolling_Std'' \<mapsto> [Fin 10, Fin 20], ''Z_Score'' \<mapsto> [Fin 0, Fin 0],
            ''Bollinger_High'' \<mapsto> [Fin 30, Fin 60],
            ''Bollinger_Low'' \<mapsto> [Fin (- 10), Fin (- 20)],
            ''RSI'' \<mapsto> [Fin 10, Fin 20], ''SMA_50'' \<mapsto> [Fin 10, Fin 20],
            ''EMA_50'' \<mapsto> [Fin 10, Fin 20], ''MACD'' \<mapsto> [Fin 10, Fin 20],
            ''ATR'' \<mapsto> [Fin 10, Fin 20]]\<rparr> ''Close'' =
     getitem (example_frame [1, 2] [Fin 10, Fin 20]) ''Close'' \<and>
   close_only_spread (example_env same_calendar adf_raises pp_raises)
     ''A'' ''B'' ''2024-01-01'' ''2024-01-03'' = Inr [(1, Fin 6), (2, Fin 15)]"
proof -
  let ?E = "example_env same_calendar adf_raises pp_raises"
  let ?d = "\<lparr>index = [1, 2],
          columns = [''Close'' \<mapsto> [Fin 10, Fin 20], ''High'' \<mapsto> [Fin 10, Fin 20],
            ''Low'' \<mapsto> [Fin 10, Fin 20], ''Rolling_Mean'' \<mapsto> [Fin 10, Fin 20],
            ''Rolling_Std'' \<mapsto> [Fin 10, Fin 20], ''Z_Score'' \<mapsto> [Fin 0, Fin 0],
            ''Bollinger_High'' \<mapsto> [Fin 30, Fin 60],
            ''Bollinger_Low'' \<mapsto> [Fin (- 10), Fin (- 20)],
            ''RSI'' \<mapsto> [Fin 10, Fin 20], ''SMA_50'' \<mapsto> [Fin 10, Fin 20],
            ''EMA_50'' \<mapsto> [Fin 10, Fin 20], ''MACD'' \<mapsto> [Fin 10, Fin 20],
            ''ATR'' \<mapsto> [Fin 10, Fin 20]]\<rparr>"
  have h1: "fetch_stock_data ?E ''A'' ''2024-01-01'' ''2024-01-03'' = Inr ?d"
    by (simp add: fetch_stock_data_def example_env_def same_calendar_def
        example_frame_def assign_def and_then_def getitem_def setitem_def reindex_def
        series_sub_def series_add_def series_div_def series_mul_scalar_def fsub_def)
  have h2: "pair_spread ?E ''A'' ''B'' ''2024-01-01'' ''2024-01-03'' =
      Inr [(1, Fin 6), (2, Fin 15)]"
    by (rule example_spread)
  have h3: "history ?E ''A'' ''2024-01-01'' ''2024-01-03'' =
      Inr (example_frame [1, 2] [Fin 10, Fin 20])"
    by (simp add: example_env_def same_calendar_def)
  note t = enrichment_keeps_close [of ?E "''A''" "''2024-01-01''" "''2024-01-03''" ?d
      "''A''" "''B''" "[(1, Fin 6), (2, Fin 15)]"]
  from t h1 h3 have "getitem ?d ''Close'' = getitem (example_frame [1, 2] [Fin 10, Fin 20]) ''Close''"
    by auto
  moreover from t h2 have "close_only_spread ?E ''A'' ''B'' ''2024-01-01'' ''2024-01-03'' =
      Inr [(1, Fin 6), (2, Fin 15)]"
    by blast
  ultimately show ?thesis using h1 h2 h3 by blast
qed

end
